theory Spec2Isabelle
  imports Main "HOL-Library.AList" "HOL-Library.Multiset"
begin

section \<open>Python values, exceptions and dictionaries\<close>

text \<open>
  The pipeline of \<^verbatim>\<open>aioscrapy/pipelines/db.py\<close> receives items that are Python
  dictionaries from column names to arbitrary values. The values the code inspects are
  \<^verbatim>\<open>None\<close>, strings, integers and lists; everything else it only stores and hands on.
\<close>

datatype pyval = PNone | PStr string | PInt int | PList "pyval list"

text \<open>
  Every exception the code can raise is a value. \<open>MissingTableName\<close> is
  \<^verbatim>\<open>Exception('please set save_table_name')\<close>; \<open>UnsupportedType n\<close> is the
  \<^verbatim>\<open>Exception\<close> of \<^verbatim>\<open>SqlFormat.__call__\<close> whose message names the builder \<open>n\<close>;
  \<open>DriverError m\<close> is an exception (a subclass of \<^verbatim>\<open>Exception\<close>) raised by the database
  driver or the connection pool.
\<close>

datatype error =
    KeyError string
  | TypeError
  | AttributeError string
  | AssertionError string
  | MissingTableName
  | UnsupportedType string
  | DriverError string

text \<open>
  A \<^verbatim>\<open>dict\<close> with string keys is an association list in insertion order.
  \<^verbatim>\<open>d[k] = v\<close> is \<^const>\<open>AList.update\<close> (in place for an existing key, at the end for a
  new one, as Python orders its keys), \<^verbatim>\<open>d.get(k)\<close> is \<^const>\<open>map_of\<close>.
\<close>

type_synonym 'v pydict = "(string \<times> 'v) list"

definition keys :: "'v pydict \<Rightarrow> string list" where
  "keys d = map fst d"

text \<open>\<^verbatim>\<open>d.pop(k)\<close>: raises \<^verbatim>\<open>KeyError\<close> when the key is absent.\<close>

definition pop :: "string \<Rightarrow> 'v pydict \<Rightarrow> error + ('v \<times> 'v pydict)" where
  "pop k d = (case map_of d k of
                None \<Rightarrow> Inl (KeyError k)
              | Some v \<Rightarrow> Inr (v, AList.delete k d))"

text \<open>\<^verbatim>\<open>d.pop(k, default)\<close>: never raises.\<close>

definition pop_default :: "string \<Rightarrow> 'v \<Rightarrow> 'v pydict \<Rightarrow> 'v \<times> 'v pydict" where
  "pop_default k dflt d = (case map_of d k of
                             None \<Rightarrow> (dflt, d)
                           | Some v \<Rightarrow> (v, AList.delete k d))"

text \<open>\<^verbatim>\<open>d[k]\<close>: raises \<^verbatim>\<open>KeyError\<close> when the key is absent.\<close>

definition getitem :: "'v pydict \<Rightarrow> string \<Rightarrow> error + 'v" where
  "getitem d k = (case map_of d k of None \<Rightarrow> Inl (KeyError k) | Some v \<Rightarrow> Inr v)"

text \<open>\<^verbatim>\<open>sep.join(xs)\<close> on a list of strings.\<close>

fun join :: "string \<Rightarrow> string list \<Rightarrow> string" where
  "join sep [] = []"
| "join sep [x] = x"
| "join sep (x # y # ys) = x @ sep @ join sep (y # ys)"

section \<open>The statement builder: class SqlFormat\<close>

text \<open>
  Each builder takes \<^verbatim>\<open>(table, fields, *args)\<close>; the cache always calls with the three
  positional arguments \<^verbatim>\<open>(table_name, fields, update_fields)\<close>, so the builders that
  swallow \<^verbatim>\<open>*args\<close> ignore the update fields.
\<close>

definition ck_insert :: "string \<Rightarrow> string list \<Rightarrow> string" where
  "ck_insert table fields =
     (let fields' = join '','' fields
      in ''INSERT INTO '' @ table @ '' ('' @ fields' @ '') VALUES '')"

definition mysql_insert :: "string \<Rightarrow> string list \<Rightarrow> string" where
  "mysql_insert table fields =
     (let placeholder = join '','' (replicate (length fields) ''%s'');
          fields' = join '','' fields
      in ''INSERT INTO '' @ table @ '' ('' @ fields' @ '') VALUES ('' @ placeholder @ '')'')"

definition mysql_ignore_insert :: "string \<Rightarrow> string list \<Rightarrow> string" where
  "mysql_ignore_insert table fields =
     (let placeholder = join '','' (replicate (length fields) ''%s'');
          fields' = join '','' fields
      in ''INSERT IGNORE INTO '' @ table @ '' ('' @ fields' @ '') VALUES ('' @ placeholder @ '')'')"

definition mysql_update_insert :: "string \<Rightarrow> string list \<Rightarrow> string list \<Rightarrow> string" where
  "mysql_update_insert table fields update_fields =
     (let placeholder = join '','' (replicate (length fields) ''%s'');
          update_fields1 = (if update_fields = [] then fields else update_fields);
          update_fields2 = join '','' (map (\<lambda>key. key @ '' = VALUES('' @ key @ '')'') update_fields1);
          fields' = join '','' fields
      in ''INSERT INTO '' @ table @ '' ('' @ fields' @ '') VALUES ('' @ placeholder @
         '') ON DUPLICATE KEY UPDATE '' @ update_fields2)"

text \<open>
  \<^verbatim>\<open>getattr(self, name)\<close> on a \<^verbatim>\<open>SqlFormat\<close> instance: the attributes the class body
  defines are the four builders and \<^verbatim>\<open>__call__\<close>. With no default given, \<^verbatim>\<open>getattr\<close>
  raises \<^verbatim>\<open>AttributeError\<close> for any other name. (The attributes inherited from
  \<^verbatim>\<open>object\<close> are left out: their names start with two underscores, which no name
  built from the dialect \<^verbatim>\<open>mysql\<close> does.)
\<close>

datatype sql_attr = Ck_insert | Mysql_insert | Mysql_ignore_insert | Mysql_update_insert | Dunder_call

definition getattr_SqlFormat :: "string \<Rightarrow> error + sql_attr" where
  "getattr_SqlFormat name =
     (if name = ''ck_insert'' then Inr Ck_insert
      else if name = ''mysql_insert'' then Inr Mysql_insert
      else if name = ''mysql_ignore_insert'' then Inr Mysql_ignore_insert
      else if name = ''mysql_update_insert'' then Inr Mysql_update_insert
      else if name = ''__call__'' then Inr Dunder_call
      else Inl (AttributeError name))"

text \<open>The truth value of an attribute: functions and bound methods are all true.\<close>

fun truthy :: "sql_attr \<Rightarrow> bool" where
  "truthy _ = True"

text \<open>
  \<^verbatim>\<open>func(*args)\<close>; for \<^verbatim>\<open>__call__\<close> the keyword arguments take their defaults
  \<^verbatim>\<open>db_type='mysql', insert_type='insert'\<close>, which selects \<^verbatim>\<open>mysql_insert\<close>.
\<close>

fun call_attr :: "sql_attr \<Rightarrow> string \<Rightarrow> string list \<Rightarrow> string list \<Rightarrow> string" where
  "call_attr Ck_insert table fields update_fields = ck_insert table fields"
| "call_attr Mysql_insert table fields update_fields = mysql_insert table fields"
| "call_attr Mysql_ignore_insert table fields update_fields = mysql_ignore_insert table fields"
| "call_attr Mysql_update_insert table fields update_fields =
     mysql_update_insert table fields update_fields"
| "call_attr Dunder_call table fields update_fields = mysql_insert table fields"

text \<open>
  \<^verbatim>\<open>SqlFormat.__call__(table, fields, update_fields, db_type=..., insert_type=...)\<close>.
  The attribute is looked up twice in the source; both lookups give the same result.
\<close>

definition get_sql ::
  "string \<Rightarrow> string list \<Rightarrow> string list \<Rightarrow> string \<Rightarrow> string \<Rightarrow> error + string" where
  "get_sql table fields update_fields dbt insert_type =
     (let name = dbt @ ''_'' @ insert_type
      in case getattr_SqlFormat name of
           Inl e \<Rightarrow> Inl e
         | Inr func \<Rightarrow>
             if truthy func then Inr (call_attr func table fields update_fields)
             else Inl (UnsupportedType name))"

text \<open>
  The on-conflict clause in the words of the specification: each update field is
  reassigned to the incoming value for that column.
\<close>

definition on_conflict_clause :: "string list \<Rightarrow> string" where
  "on_conflict_clause ufs =
     '' ON DUPLICATE KEY UPDATE '' @ join '','' (map (\<lambda>k. k @ '' = VALUES('' @ k @ '')'') ufs)"

section \<open>The batch cache: class ItemCache\<close>

type_synonym item = "pyval pydict"
type_synonym row = "pyval list"

text \<open>The five dictionaries of \<^verbatim>\<open>ItemCache.__init__\<close>, all keyed by the cache key.\<close>

record ItemCache =
  db_type :: string
  item_cache :: "row list pydict"
  fields_cache :: "string list pydict"
  table_cache :: "string pydict"
  insert_sql_cache :: "string pydict"
  db_alias_cache :: "pyval pydict"

definition ItemCache_init :: "string \<Rightarrow> ItemCache" where
  "ItemCache_init dbt =
     \<lparr>db_type = dbt, item_cache = [], fields_cache = [], table_cache = [],
      insert_sql_cache = [], db_alias_cache = []\<rparr>"

text \<open>
  \<^verbatim>\<open>''.join(xs)\<close> raises \<^verbatim>\<open>TypeError\<close> unless every element of the list is a string.
\<close>

fun str_list :: "pyval list \<Rightarrow> error + string list" where
  "str_list [] = Inr []"
| "str_list (PStr s # vs) =
     (case str_list vs of Inl e \<Rightarrow> Inl e | Inr ss \<Rightarrow> Inr (s # ss))"
| "str_list (_ # vs) = Inl TypeError"

text \<open>
  Line 74: \<^verbatim>\<open>cache_key = ''.join(fields + update_fields) + insert_type + table_name\<close>.
  \<^verbatim>\<open>fields + update_fields\<close> needs a list on the right, \<^verbatim>\<open>join\<close> needs strings, and
  \<^verbatim>\<open>+\<close> on a string needs a string: anything else raises \<^verbatim>\<open>TypeError\<close>. The result
  carries along the three control attributes at the types the checks have established.
\<close>

definition make_cache_key ::
  "string list \<Rightarrow> pyval \<Rightarrow> pyval \<Rightarrow> pyval \<Rightarrow> error + (string \<times> string list \<times> string \<times> string)" where
  "make_cache_key field_names update_fields insert_type table_name =
     (case update_fields of
        PList us \<Rightarrow>
          (case str_list us of
             Inl e \<Rightarrow> Inl e
           | Inr ufs \<Rightarrow>
               (case insert_type of
                  PStr it \<Rightarrow>
                    (case table_name of
                       PStr tn \<Rightarrow> Inr (join [] (field_names @ ufs) @ it @ tn, ufs, it, tn)
                     | _ \<Rightarrow> Inl TypeError)
                | _ \<Rightarrow> Inl TypeError))
      | _ \<Rightarrow> Inl TypeError)"

text \<open>
  Lines 76 to 91, the body of \<^verbatim>\<open>if self.fields_cache.get(cache_key) is None\<close>: four
  dictionaries are written before the statement is built, so a builder that raises leaves
  them written.
\<close>

definition create_group ::
  "ItemCache \<Rightarrow> string \<Rightarrow> pyval \<Rightarrow> string \<Rightarrow> string list \<Rightarrow> string list \<Rightarrow> string
     \<Rightarrow> ItemCache \<times> (error + unit)" where
  "create_group c cache_key save_db_alias table_name field_names update_fields insert_type =
     (let c1 = c\<lparr>db_alias_cache := AList.update cache_key save_db_alias (db_alias_cache c)\<rparr>;
          c2 = c1\<lparr>table_cache := AList.update cache_key table_name (table_cache c1)\<rparr>;
          c3 = c2\<lparr>fields_cache := AList.update cache_key field_names (fields_cache c2)\<rparr>;
          c4 = c3\<lparr>item_cache := AList.update cache_key [] (item_cache c3)\<rparr>
      in case get_sql table_name field_names update_fields (db_type c4) insert_type of
           Inl e \<Rightarrow> (c4, Inl e)
         | Inr sql \<Rightarrow>
             (c4\<lparr>insert_sql_cache := AList.update cache_key sql (insert_sql_cache c4)\<rparr>, Inr ()))"

text \<open>\<^verbatim>\<open>[item[field] for field in fields]\<close>: the first missing field raises.\<close>

fun lookup_row :: "item \<Rightarrow> string list \<Rightarrow> error + row" where
  "lookup_row item [] = Inr []"
| "lookup_row item (f # fs) =
     (case getitem item f of
        Inl e \<Rightarrow> Inl e
      | Inr v \<Rightarrow> (case lookup_row item fs of Inl e \<Rightarrow> Inl e | Inr vs \<Rightarrow> Inr (v # vs)))"

text \<open>
  Lines 94 and 95: \<^verbatim>\<open>self.item_cache[cache_key]\<close> is evaluated first, then the row is
  built from the stored field list, then appended; the new length is returned.
\<close>

definition append_row :: "ItemCache \<Rightarrow> item \<Rightarrow> string \<Rightarrow> ItemCache \<times> (error + string \<times> nat)" where
  "append_row c item cache_key =
     (case getitem (item_cache c) cache_key of
        Inl e \<Rightarrow> (c, Inl e)
      | Inr rows \<Rightarrow>
          (case getitem (fields_cache c) cache_key of
             Inl e \<Rightarrow> (c, Inl e)
           | Inr fs \<Rightarrow>
               (case lookup_row item fs of
                  Inl e \<Rightarrow> (c, Inl e)
                | Inr r \<Rightarrow>
                    (let rows' = rows @ [r]
                     in (c\<lparr>item_cache := AList.update cache_key rows' (item_cache c)\<rparr>,
                         Inr (cache_key, length rows'))))))"

text \<open>
  Lines 69 and 70: \<^verbatim>\<open>if isinstance(save_db_alias, str): save_db_alias = [save_db_alias]\<close>.
\<close>

fun wrap_alias :: "pyval \<Rightarrow> pyval" where
  "wrap_alias (PStr s) = PList [PStr s]"
| "wrap_alias v = v"

text \<open>
  \<^verbatim>\<open>ItemCache.parse_item_to_cache\<close>. The result is the cache and the caller's item as the
  call leaves them (both are mutated in place, also when the call raises), and the
  exception or the returned pair.
\<close>

definition parse_item_to_cache ::
  "ItemCache \<Rightarrow> item \<Rightarrow> ItemCache \<times> item \<times> (error + string \<times> nat)" where
  "parse_item_to_cache c item =
     (case pop ''save_table_name'' item of
        Inl e \<Rightarrow> (c, item, Inl e)
      | Inr (table_name, item1) \<Rightarrow>
          if table_name = PNone then (c, item1, Inl MissingTableName)
          else
            (let (insert_type, item2) = pop_default ''save_insert_type'' (PStr ''insert'') item1;
                 (update_fields, item3) = pop_default ''save_update_fields'' (PList []) item2;
                 (save_db_alias0, item4) =
                    pop_default ''save_db_alias'' (PList [PStr ''default'']) item3;
                 save_db_alias = wrap_alias save_db_alias0;
                 field_names = keys item4
             in case make_cache_key field_names update_fields insert_type table_name of
                  Inl e \<Rightarrow> (c, item4, Inl e)
                | Inr (cache_key, ufs, it, tn) \<Rightarrow>
                    (case (if map_of (fields_cache c) cache_key = None
                           then create_group c cache_key save_db_alias tn field_names ufs it
                           else (c, Inr ())) of
                       (c1, Inl e) \<Rightarrow> (c1, item4, Inl e)
                     | (c1, Inr _) \<Rightarrow>
                         (case append_row c1 item4 cache_key of (c2, r) \<Rightarrow> (c2, item4, r)))))"

section \<open>The outside world: event loop, connection pool and driver\<close>

text \<open>
  The pool manager and the database driver are not part of the pipeline. Every call into
  them is answered by a parameter \<open>db\<close>, a function of the history so far and of the call:
  it either returns (with the number \<^verbatim>\<open>executemany\<close> reports, ignored for the other
  calls) or raises. The history of calls and answers, the released connections, the log
  lines and the cancellation of the periodic task are recorded in order.
\<close>

datatype call =
    FromCrawler string
  | Acquire string pyval
  | ExecuteMany pyval string "row list"
  | Commit pyval
  | Rollback pyval

datatype outcome = Returns int | Raises string

datatype event =
    Called call outcome
  | Released pyval
  | LogInfo pyval string nat int
  | LogException pyval string error
  | CancelTask

type_synonym database = "event list \<Rightarrow> call \<Rightarrow> outcome"

definition invoke :: "database \<Rightarrow> event list \<Rightarrow> call \<Rightarrow> event list \<times> outcome" where
  "invoke db tr c = (tr @ [Called c (db tr c)], db tr c)"

text \<open>
  \<^verbatim>\<open>DBManager.get_manager\<close> of \<^verbatim>\<open>aioscrapy/db/__init__.py\<close>: the map has the two
  entries \<^verbatim>\<open>mysql\<close> and \<^verbatim>\<open>redis\<close>, and the lookup is asserted.
\<close>

definition get_manager :: "string \<Rightarrow> error + string" where
  "get_manager dbt =
     (if dbt = ''mysql'' \<or> dbt = ''redis'' then Inr dbt else Inl (AssertionError dbt))"

section \<open>The pipeline: classes DBPipelineBase and MysqlPipeline\<close>

text \<open>
  The handle \<^verbatim>\<open>save_interval_task\<close> is \<^verbatim>\<open>None\<close> until \<^verbatim>\<open>open_spider\<close>; afterwards it
  names a task that is waiting to run or has been cancelled. The field \<open>trace\<close> is the
  recorded history of the outside world. The \<^verbatim>\<open>asyncio.Lock\<close> is not a field: every
  operation below runs its whole body holding the lock, so the operations are the
  atomic steps of the pipeline.
\<close>

datatype task = Pending | Cancelled

record pipeline =
  cache_num :: int
  save_cache_interval :: int
  pipeline_db_type :: string
  save_interval_task :: "task option"
  cache :: ItemCache
  trace :: "event list"

text \<open>
  \<^verbatim>\<open>DBPipelineBase.__init__\<close>; the two settings are read with
  \<^verbatim>\<open>settings.getint(name, default)\<close>, \<open>None\<close> standing for a setting that is not set.
\<close>

definition DBPipelineBase_init :: "int option \<Rightarrow> int option \<Rightarrow> string \<Rightarrow> pipeline" where
  "DBPipelineBase_init save_cache_num save_interval_setting dbt =
     \<lparr>cache_num = (case save_cache_num of None \<Rightarrow> 500 | Some n \<Rightarrow> n),
      save_cache_interval = (case save_interval_setting of None \<Rightarrow> 10 | Some n \<Rightarrow> n),
      pipeline_db_type = dbt,
      save_interval_task = None,
      cache = ItemCache_init dbt,
      trace = []\<rparr>"

definition MysqlPipeline_from_settings :: "int option \<Rightarrow> int option \<Rightarrow> pipeline" where
  "MysqlPipeline_from_settings save_cache_num save_interval_setting =
     DBPipelineBase_init save_cache_num save_interval_setting ''mysql''"

definition open_spider :: "database \<Rightarrow> pipeline \<Rightarrow> pipeline \<times> (error + unit)" where
  "open_spider db st =
     (case get_manager (pipeline_db_type st) of
        Inl e \<Rightarrow> (st, Inl e)
      | Inr mgr \<Rightarrow>
          (case invoke db (trace st) (FromCrawler mgr) of
             (tr, Raises m) \<Rightarrow> (st\<lparr>trace := tr\<rparr>, Inl (DriverError m))
           | (tr, Returns _) \<Rightarrow>
               (st\<lparr>trace := tr, save_interval_task := Some Pending\<rparr>, Inr ())))"

text \<open>
  Lines 153 to 157, the body of the inner \<^verbatim>\<open>try\<close>: the two dictionary lookups are the
  arguments of \<^verbatim>\<open>executemany\<close> and are evaluated inside the \<^verbatim>\<open>try\<close>.
\<close>

definition try_write ::
  "database \<Rightarrow> ItemCache \<Rightarrow> string \<Rightarrow> string \<Rightarrow> event list \<Rightarrow> pyval
     \<Rightarrow> event list \<times> (error + unit)" where
  "try_write db c cache_key table_name tr alias =
     (case getitem (insert_sql_cache c) cache_key of
        Inl e \<Rightarrow> (tr, Inl e)
      | Inr sql \<Rightarrow>
          (case getitem (item_cache c) cache_key of
             Inl e \<Rightarrow> (tr, Inl e)
           | Inr rows \<Rightarrow>
               (case invoke db tr (ExecuteMany alias sql rows) of
                  (tr1, Raises m) \<Rightarrow> (tr1, Inl (DriverError m))
                | (tr1, Returns num) \<Rightarrow>
                    (case invoke db tr1 (Commit alias) of
                       (tr2, Raises m) \<Rightarrow> (tr2, Inl (DriverError m))
                     | (tr2, Returns _) \<Rightarrow>
                         (tr2 @ [LogInfo alias table_name (length rows) num], Inr ())))))"

text \<open>
  Lines 152 to 160, one round of the loop over the aliases. The connection is acquired
  outside the inner \<^verbatim>\<open>try\<close>; the handler rolls back and logs.

  Modelled from the spec: the pool manager's \<^verbatim>\<open>get\<close> (in \<^verbatim>\<open>aioscrapy/db/_aiomysql.py\<close>)
  is an external collaborator whose scoped connection is "released automatically on block
  exit": leaving the \<^verbatim>\<open>async with\<close> block records the release, does not raise and does
  not swallow an exception of the block.
\<close>

definition save_one ::
  "database \<Rightarrow> string \<Rightarrow> ItemCache \<Rightarrow> string \<Rightarrow> string \<Rightarrow> event list \<Rightarrow> pyval
     \<Rightarrow> event list \<times> (error + unit)" where
  "save_one db dbt c cache_key table_name tr alias =
     (case get_manager dbt of
        Inl e \<Rightarrow> (tr, Inl e)
      | Inr mgr \<Rightarrow>
          (case invoke db tr (Acquire mgr alias) of
             (tr0, Raises m) \<Rightarrow> (tr0, Inl (DriverError m))
           | (tr0, Returns _) \<Rightarrow>
               (case try_write db c cache_key table_name tr0 alias of
                  (tr1, Inr _) \<Rightarrow> (tr1 @ [Released alias], Inr ())
                | (tr1, Inl e) \<Rightarrow>
                    (case invoke db tr1 (Rollback alias) of
                       (tr2, Raises m) \<Rightarrow> (tr2 @ [Released alias], Inl (DriverError m))
                     | (tr2, Returns _) \<Rightarrow>
                         (tr2 @ [LogException alias table_name e, Released alias], Inr ())))))"

text \<open>The \<^verbatim>\<open>for alias in ...\<close> loop: an exception that leaves a round ends the loop.\<close>

fun save_aliases ::
  "database \<Rightarrow> string \<Rightarrow> ItemCache \<Rightarrow> string \<Rightarrow> string \<Rightarrow> event list \<Rightarrow> pyval list
     \<Rightarrow> event list \<times> (error + unit)" where
  "save_aliases db dbt c cache_key table_name tr [] = (tr, Inr ())"
| "save_aliases db dbt c cache_key table_name tr (alias # aliases) =
     (case save_one db dbt c cache_key table_name tr alias of
        (tr1, Inl e) \<Rightarrow> (tr1, Inl e)
      | (tr1, Inr _) \<Rightarrow> save_aliases db dbt c cache_key table_name tr1 aliases)"

text \<open>
  What \<^verbatim>\<open>for alias in v\<close> iterates over: the elements of a list, the characters of a
  string; \<^verbatim>\<open>None\<close> and integers are not iterable.
\<close>

fun py_iter :: "pyval \<Rightarrow> error + pyval list" where
  "py_iter (PList vs) = Inr vs"
| "py_iter (PStr s) = Inr (map (\<lambda>ch. PStr [ch]) s)"
| "py_iter _ = Inl TypeError"

text \<open>
  \<^verbatim>\<open>MysqlPipeline._save\<close>. The table name is looked up before the outer \<^verbatim>\<open>try\<close>; all
  the rest runs inside it, and its \<^verbatim>\<open>finally\<close> resets the buffer on every way out.
\<close>

definition MysqlPipeline_save :: "database \<Rightarrow> pipeline \<Rightarrow> string \<Rightarrow> pipeline \<times> (error + unit)" where
  "MysqlPipeline_save db st cache_key =
     (case getitem (table_cache (cache st)) cache_key of
        Inl e \<Rightarrow> (st, Inl e)
      | Inr table_name \<Rightarrow>
          (case (case getitem (db_alias_cache (cache st)) cache_key of
                   Inl e \<Rightarrow> (trace st, Inl e)
                 | Inr v \<Rightarrow>
                     (case py_iter v of
                        Inl e \<Rightarrow> (trace st, Inl e)
                      | Inr aliases \<Rightarrow>
                          save_aliases db (pipeline_db_type st) (cache st) cache_key table_name
                            (trace st) aliases)) of
             (tr, r) \<Rightarrow>
               (st\<lparr>trace := tr,
                   cache := (cache st)\<lparr>item_cache :=
                              AList.update cache_key [] (item_cache (cache st))\<rparr>\<rparr>, r)))"

text \<open>
  \<^verbatim>\<open>DBPipelineBase.save_item\<close>. The result also carries the caller's item as the call
  leaves it.
\<close>

definition save_item ::
  "database \<Rightarrow> pipeline \<Rightarrow> item \<Rightarrow> pipeline \<times> item \<times> (error + unit)" where
  "save_item db st item =
     (case parse_item_to_cache (cache st) item of
        (c', item', Inl e) \<Rightarrow> (st\<lparr>cache := c'\<rparr>, item', Inl e)
      | (c', item', Inr (cache_key, cache_count)) \<Rightarrow>
          if int cache_count \<ge> cache_num st
          then (case MysqlPipeline_save db (st\<lparr>cache := c'\<rparr>) cache_key of
                  (st', r) \<Rightarrow> (st', item', r))
          else (st\<lparr>cache := c'\<rparr>, item', Inr ()))"

text \<open>\<^verbatim>\<open>DBPipelineBase.process_item\<close> returns the item it was given, as mutated.\<close>

definition process_item ::
  "database \<Rightarrow> pipeline \<Rightarrow> item \<Rightarrow> pipeline \<times> (error + item)" where
  "process_item db st item =
     (case save_item db st item of
        (st', item', Inl e) \<Rightarrow> (st', Inl e)
      | (st', item', Inr _) \<Rightarrow> (st', Inr item'))"

text \<open>
  The loop \<^verbatim>\<open>for cache_key, items in self.cache.item_cache.items(): items and await
  self._save(cache_key)\<close>, which \<^verbatim>\<open>close\<close> and \<^verbatim>\<open>save_interval\<close> share. The keys do not
  change while the loop runs (a flush only assigns to an existing key), so the loop
  walks the keys as they were at its start and reads each buffer when it gets there.
\<close>

fun save_nonempty :: "database \<Rightarrow> pipeline \<Rightarrow> string list \<Rightarrow> pipeline \<times> (error + unit)" where
  "save_nonempty db st [] = (st, Inr ())"
| "save_nonempty db st (cache_key # ks) =
     (case map_of (item_cache (cache st)) cache_key of
        Some (r # rs) \<Rightarrow>
          (case MysqlPipeline_save db st cache_key of
             (st1, Inl e) \<Rightarrow> (st1, Inl e)
           | (st1, Inr _) \<Rightarrow> save_nonempty db st1 ks)
      | _ \<Rightarrow> save_nonempty db st ks)"

definition close :: "database \<Rightarrow> pipeline \<Rightarrow> pipeline \<times> (error + unit)" where
  "close db st = save_nonempty db st (keys (item_cache (cache st)))"

text \<open>
  \<^verbatim>\<open>DBPipelineBase.close_spider\<close>: \<^verbatim>\<open>self.save_interval_task and
  self.save_interval_task.cancel()\<close>, then \<^verbatim>\<open>await self.close()\<close>.
\<close>

definition cancel_task :: "pipeline \<Rightarrow> pipeline" where
  "cancel_task st =
     (case save_interval_task st of
        None \<Rightarrow> st
      | Some t \<Rightarrow> st\<lparr>save_interval_task := Some Cancelled, trace := trace st @ [CancelTask]\<rparr>)"

definition close_spider :: "database \<Rightarrow> pipeline \<Rightarrow> pipeline \<times> (error + unit)" where
  "close_spider db st = close db (cancel_task st)"

text \<open>
  \<^verbatim>\<open>DBPipelineBase.save_interval\<close>, the body of the periodic task after its sleep: one
  sweep, then a new task is created. A sweep that raises ends the task before the new one
  is created.
\<close>

definition save_interval :: "database \<Rightarrow> pipeline \<Rightarrow> pipeline \<times> (error + unit)" where
  "save_interval db st =
     (case save_nonempty db st (keys (item_cache (cache st))) of
        (st1, Inl e) \<Rightarrow> (st1, Inl e)
      | (st1, Inr _) \<Rightarrow> (st1\<lparr>save_interval_task := Some Pending\<rparr>, Inr ()))"

text \<open>
  The event loop runs the body of the periodic task only while the task is waiting; a
  cancelled task never runs again.
\<close>

definition periodic_tick :: "database \<Rightarrow> pipeline \<Rightarrow> pipeline \<times> (error + unit)" where
  "periodic_tick db st =
     (if save_interval_task st = Some Pending then save_interval db st else (st, Inr ()))"

section \<open>Notions used to state the properties\<close>

text \<open>
  A control attribute of a record, with the default the code gives it; the record without
  its four control attributes; the destination aliases the code stores for it; and the
  key derivation of lines 57 to 74 taken alone.
\<close>

definition control :: "item \<Rightarrow> string \<Rightarrow> pyval \<Rightarrow> pyval" where
  "control item name dflt = (case map_of item name of None \<Rightarrow> dflt | Some v \<Rightarrow> v)"

definition columns :: "item \<Rightarrow> item" where
  "columns item =
     AList.delete ''save_db_alias'' (AList.delete ''save_update_fields''
       (AList.delete ''save_insert_type'' (AList.delete ''save_table_name'' item)))"

definition alias_of :: "item \<Rightarrow> pyval" where
  "alias_of item = wrap_alias (control item ''save_db_alias'' (PList [PStr ''default'']))"

definition group_key :: "item \<Rightarrow> error + (string \<times> string list \<times> string \<times> string)" where
  "group_key item =
     (case map_of item ''save_table_name'' of
        None \<Rightarrow> Inl (KeyError ''save_table_name'')
      | Some tv \<Rightarrow>
          if tv = PNone then Inl MissingTableName
          else make_cache_key (keys (columns item))
                 (control item ''save_update_fields'' (PList []))
                 (control item ''save_insert_type'' (PStr ''insert'')) tv)"

text \<open>The buffered rows of a group; a key with no group has none.\<close>

definition buffer :: "ItemCache \<Rightarrow> string \<Rightarrow> row list" where
  "buffer c k = (case map_of (item_cache c) k of None \<Rightarrow> [] | Some rows \<Rightarrow> rows)"


text \<open>
  Readings of a recorded history: the write attempts (alias, statement, rows) in order;
  the aliases whose \<^verbatim>\<open>executemany\<close> or \<^verbatim>\<open>commit\<close> raised; the aliases whose
  transaction was rolled back; the aliases whose transaction was committed.
\<close>

fun executed :: "event list \<Rightarrow> (pyval \<times> string \<times> row list) list" where
  "executed [] = []"
| "executed (Called (ExecuteMany a s r) out # evs) = (a, s, r) # executed evs"
| "executed (e # evs) = executed evs"




text \<open>
  The shutdown drain in the words of the specification: the groups whose buffer is not
  empty, in creation order, and one flush for each key of a list, in order, ending at the
  first flush that raises.
\<close>

definition nonempty_keys :: "ItemCache \<Rightarrow> string list" where
  "nonempty_keys c = filter (\<lambda>k. buffer c k \<noteq> []) (keys (item_cache c))"

fun flush_each :: "database \<Rightarrow> pipeline \<Rightarrow> string list \<Rightarrow> pipeline \<times> (error + unit)" where
  "flush_each db st [] = (st, Inr ())"
| "flush_each db st (k # ks) =
     (case MysqlPipeline_save db st k of
        (st1, Inl e) \<Rightarrow> (st1, Inl e)
      | (st1, Inr _) \<Rightarrow> flush_each db st1 ks)"

text \<open>
  The order the specification gives to the cancellation of the periodic task: it is
  recorded, and no write is attempted after it.
\<close>

definition cancelled_after_sweep :: "event list \<Rightarrow> bool" where
  "cancelled_after_sweep evs \<longleftrightarrow>
     CancelTask \<in> set evs \<and> executed (dropWhile (\<lambda>e. e \<noteq> CancelTask) evs) = []"

text \<open>
  A sequence of records admitted one after the other, ending at the first one that is
  rejected; and what the records of one group share: target table, write mode, update
  fields and field names.
\<close>

fun admit_all :: "ItemCache \<Rightarrow> item list \<Rightarrow> ItemCache \<times> (error + (string \<times> nat) list)" where
  "admit_all c [] = (c, Inr [])"
| "admit_all c (i # items) =
     (case parse_item_to_cache c i of
        (c1, i', Inl e) \<Rightarrow> (c1, Inl e)
      | (c1, i', Inr kn) \<Rightarrow>
          (case admit_all c1 items of
             (c2, Inl e) \<Rightarrow> (c2, Inl e)
           | (c2, Inr kns) \<Rightarrow> (c2, Inr (kn # kns))))"

definition signature :: "item \<Rightarrow> pyval option \<times> pyval \<times> pyval \<times> string list" where
  "signature i =
     (map_of i ''save_table_name'',
      control i ''save_insert_type'' (PStr ''insert''),
      control i ''save_update_fields'' (PList []),
      keys (columns i))"

section \<open>Concrete inputs\<close>

text \<open>
  A database whose alias \<^verbatim>\<open>a\<close> raises on every \<^verbatim>\<open>executemany\<close> while everything else
  succeeds; one that never raises; and records for the table \<^verbatim>\<open>users\<close> with the two
  destination aliases \<^verbatim>\<open>a\<close> and \<^verbatim>\<open>b\<close>.
\<close>

definition db_a_fails :: database where
  "db_a_fails h c =
     (case c of
        ExecuteMany a s r \<Rightarrow>
          if a = PStr ''a'' then Raises ''timeout'' else Returns (int (length r))
      | _ \<Rightarrow> Returns 0)"


definition user_item :: "int \<Rightarrow> string \<Rightarrow> item" where
  "user_item i name =
     [(''save_table_name'', PStr ''users''),
      (''save_db_alias'', PList [PStr ''a'', PStr ''b'']),
      (''id'', PInt i), (''name'', PStr name)]"

text \<open>A pipeline with threshold \<open>n\<close> that has accepted one record.\<close>

definition one_buffered :: "int \<Rightarrow> pipeline" where
  "one_buffered n =
     fst (save_item db_a_fails (MysqlPipeline_from_settings (Some n) None) (user_item 1 ''ann''))"

section \<open>Properties of the statement builder\<close>

lemma mysql_insert_text:
  "mysql_insert table fs =
     ''INSERT INTO '' @ table @ '' ('' @ join '','' fs @ '') VALUES ('' @
       join '','' (replicate (length fs) ''%s'') @ '')''"
  by (simp add: mysql_insert_def)

text \<open>
  C7: the upsert builder returns the plain insert text, with one placeholder per field,
  extended by the on-conflict clause over the update fields, or over all fields when the
  update-field list is empty.
\<close>

theorem mysql_update_insert_is_insert_plus_clause:
  "mysql_update_insert table fs update_fields =
     mysql_insert table fs @
       on_conflict_clause (if update_fields = [] then fs else update_fields)
   \<and> mysql_insert table fs =
       ''INSERT INTO '' @ table @ '' ('' @ join '','' fs @ '') VALUES ('' @
         join '','' (replicate (length fs) ''%s'') @ '')''"
  by (simp add: mysql_update_insert_def mysql_insert_def on_conflict_clause_def)

section \<open>Properties of the batch cache\<close>

lemma pop_default_eq: "pop_default k dflt d = (control d k dflt, AList.delete k d)"
proof (cases "map_of d k")
  case None
  then have "k \<notin> fst ` set d" by (simp add: map_of_eq_None_iff)
  then have "AList.delete k d = d" by (rule delete_id)
  with None show ?thesis by (simp add: pop_default_def control_def)
next
  case (Some v)
  then show ?thesis by (simp add: pop_default_def control_def)
qed

lemma control_delete: "k \<noteq> k' \<Longrightarrow> control (AList.delete k d) k' dflt = control d k' dflt"
  by (simp add: control_def)

lemma parse_by_group_key:
  assumes "group_key item = Inr (k, ufs, it, tn)"
  shows "parse_item_to_cache c item =
     (case (if map_of (fields_cache c) k = None
            then create_group c k (alias_of item) tn (keys (columns item)) ufs it
            else (c, Inr ())) of
        (c1, Inl e) \<Rightarrow> (c1, columns item, Inl e)
      | (c1, Inr _) \<Rightarrow> (case append_row c1 (columns item) k of (c2, r) \<Rightarrow> (c2, columns item, r)))"
proof -
  from assms obtain tv where tv: "map_of item ''save_table_name'' = Some tv" "tv \<noteq> PNone"
    and mk: "make_cache_key (keys (columns item))
                 (control item ''save_update_fields'' (PList []))
                 (control item ''save_insert_type'' (PStr ''insert'')) tv = Inr (k, ufs, it, tn)"
    by (auto simp: group_key_def split: option.splits if_splits)
  have c1: "control (AList.delete ''save_table_name'' item) ''save_insert_type'' d
              = control item ''save_insert_type'' d" for d
    by (rule control_delete) simp
  have c2: "control (AList.delete ''save_insert_type'' (AList.delete ''save_table_name'' item))
               ''save_update_fields'' d = control item ''save_update_fields'' d" for d
    by (simp add: control_def)
  have c3: "control (AList.delete ''save_update_fields'' (AList.delete ''save_insert_type''
               (AList.delete ''save_table_name'' item))) ''save_db_alias'' d
            = control item ''save_db_alias'' d" for d
    by (simp add: control_def)
  show ?thesis
    unfolding parse_item_to_cache_def pop_def pop_default_eq columns_def alias_of_def
    using tv mk[unfolded columns_def]
    by (simp only: option.case sum.case prod.case Let_def if_False c1 c2 c3)
qed

lemma parse_missing_table:
  assumes "map_of item ''save_table_name'' = None"
  shows "parse_item_to_cache c item = (c, item, Inl (KeyError ''save_table_name''))"
  unfolding parse_item_to_cache_def pop_def using assms
  by (simp only: option.case sum.case)

lemma parse_null_table:
  assumes "map_of item ''save_table_name'' = Some PNone"
  shows "parse_item_to_cache c item =
           (c, AList.delete ''save_table_name'' item, Inl MissingTableName)"
  unfolding parse_item_to_cache_def pop_def using assms
  by (simp only: option.case sum.case prod.case simp_thms if_True)

text \<open>
  C5: a record that lacks the control attribute \<^verbatim>\<open>save_table_name\<close>, or carries it with
  the value \<^verbatim>\<open>None\<close>, is rejected before anything is buffered: the admit call raises
  (\<^verbatim>\<open>KeyError\<close> for the missing attribute, the "please set" exception for \<^verbatim>\<open>None\<close>),
  the cache is returned as it was, so no group is created or modified, and \<^verbatim>\<open>save_item\<close>
  leaves the whole pipeline state as it was.
\<close>

theorem missing_table_rejected:
  assumes "map_of item ''save_table_name'' = None \<or> map_of item ''save_table_name'' = Some PNone"
  shows "parse_item_to_cache c item =
           (c, (if map_of item ''save_table_name'' = None then item
                else AList.delete ''save_table_name'' item),
            Inl (if map_of item ''save_table_name'' = None then KeyError ''save_table_name''
                 else MissingTableName))
       \<and> save_item db st item =
           (st, (if map_of item ''save_table_name'' = None then item
                 else AList.delete ''save_table_name'' item),
            Inl (if map_of item ''save_table_name'' = None then KeyError ''save_table_name''
                 else MissingTableName))"
proof (cases "map_of item ''save_table_name'' = None")
  case True
  have p: "parse_item_to_cache (cache st) item = (cache st, item, Inl (KeyError ''save_table_name''))"
    for st :: pipeline by (rule parse_missing_table[OF True])
  show ?thesis using True
    by (simp add: parse_missing_table[OF True] save_item_def)
next
  case False
  with assms have n: "map_of item ''save_table_name'' = Some PNone" by simp
  show ?thesis using n
    by (simp add: parse_null_table[OF n] save_item_def)
qed

lemma lookup_row_missing:
  "\<not> set sf \<subseteq> set (keys d) \<Longrightarrow> \<exists>f\<in>set sf. f \<notin> set (keys d) \<and> lookup_row d sf = Inl (KeyError f)"
proof (induction sf)
  case Nil
  then show ?case by simp
next
  case (Cons f sf)
  show ?case
  proof (cases "map_of d f")
    case None
    then have "f \<notin> set (keys d)" by (simp add: map_of_eq_None_iff keys_def)
    with None show ?thesis by (simp add: getitem_def)
  next
    case (Some v)
    then have "f \<in> set (keys d)" by (force simp: keys_def dest: map_of_SomeD)
    with Cons.prems have "\<not> set sf \<subseteq> set (keys d)" by simp
    from Cons.IH[OF this] Some show ?thesis by (auto simp: getitem_def)
  qed
qed

lemma append_row_existing:
  assumes "map_of (fields_cache c) k = Some sf" "map_of (item_cache c) k = Some rows"
  shows "append_row c d k =
           (case lookup_row d sf of
              Inl e \<Rightarrow> (c, Inl e)
            | Inr r \<Rightarrow> (c\<lparr>item_cache := AList.update k (rows @ [r]) (item_cache c)\<rparr>,
                       Inr (k, Suc (length rows))))"
  using assms by (simp add: append_row_def getitem_def Let_def split: sum.splits)

text \<open>
  C10: a record admitted into a group that already exists has its row built from the
  field list stored with the group, not from its own field names. When a stored field is
  not a column of the record, the admit call raises \<^verbatim>\<open>KeyError\<close> for such a field; by
  then the control attributes have been stripped from the record, and the cache is
  returned as it was, so no row is appended to any group.
\<close>

theorem admit_existing_group:
  assumes gk: "group_key item = Inr (k, ufs, it, tn)"
      and sf: "map_of (fields_cache c) k = Some sf"
      and rows: "map_of (item_cache c) k = Some rows"
  shows "parse_item_to_cache c item =
           (case lookup_row (columns item) sf of
              Inl e \<Rightarrow> (c, columns item, Inl e)
            | Inr r \<Rightarrow> (c\<lparr>item_cache := AList.update k (rows @ [r]) (item_cache c)\<rparr>,
                       columns item, Inr (k, Suc (length rows))))
         \<and> (\<not> set sf \<subseteq> set (keys (columns item)) \<longrightarrow>
              (\<exists>f\<in>set sf. f \<notin> set (keys (columns item)) \<and>
                 parse_item_to_cache c item = (c, columns item, Inl (KeyError f))))"
proof -
  have eq: "parse_item_to_cache c item =
           (case lookup_row (columns item) sf of
              Inl e \<Rightarrow> (c, columns item, Inl e)
            | Inr r \<Rightarrow> (c\<lparr>item_cache := AList.update k (rows @ [r]) (item_cache c)\<rparr>,
                       columns item, Inr (k, Suc (length rows))))"
    by (simp add: parse_by_group_key[OF gk] sf append_row_existing[OF sf rows] split: sum.splits)
  show ?thesis
  proof (intro conjI impI)
    show "parse_item_to_cache c item =
           (case lookup_row (columns item) sf of
              Inl e \<Rightarrow> (c, columns item, Inl e)
            | Inr r \<Rightarrow> (c\<lparr>item_cache := AList.update k (rows @ [r]) (item_cache c)\<rparr>,
                       columns item, Inr (k, Suc (length rows))))" by (rule eq)
  next
    assume "\<not> set sf \<subseteq> set (keys (columns item))"
    from lookup_row_missing[OF this] obtain f where
      f: "f \<in> set sf" "f \<notin> set (keys (columns item))" "lookup_row (columns item) sf = Inl (KeyError f)"
      by blast
    then show "\<exists>f\<in>set sf. f \<notin> set (keys (columns item)) \<and>
                 parse_item_to_cache c item = (c, columns item, Inl (KeyError f))"
      by (auto simp: eq)
  qed
qed

text \<open>
  C6: for the dialect \<^verbatim>\<open>mysql\<close> and the unregistered write mode \<^verbatim>\<open>replace\<close> the builder
  call raises at once, but the exception is the \<^verbatim>\<open>AttributeError\<close> of \<^verbatim>\<open>getattr\<close>, not
  the descriptive exception of line 40.
\<close>

theorem unregistered_builder_raises_attribute_error:
  "get_sql ''t'' [''id''] [] ''mysql'' ''replace'' = Inl (AttributeError ''mysql_replace'')"
  by (simp add: get_sql_def getattr_SqlFormat_def)

text \<open>The descriptive exception of line 40 is never raised.\<close>

lemma get_sql_never_unsupported: "get_sql t fs ufs dbt it \<noteq> Inl (UnsupportedType n)"
  by (simp add: get_sql_def getattr_SqlFormat_def Let_def)

theorem missing_table_rejected_witness:
  "parse_item_to_cache (ItemCache_init ''mysql'') [(''save_table_name'', PNone), (''id'', PInt 1)] =
     (ItemCache_init ''mysql'', [(''id'', PInt 1)], Inl MissingTableName)
   \<and> save_item (\<lambda>h c. Returns 0) (MysqlPipeline_from_settings None None)
        [(''save_table_name'', PNone), (''id'', PInt 1)] =
     (MysqlPipeline_from_settings None None, [(''id'', PInt 1)], Inl MissingTableName)"
  using missing_table_rejected[of "[(''save_table_name'', PNone), (''id'', PInt 1)]"
          "ItemCache_init ''mysql''" "\<lambda>h c. Returns 0" "MysqlPipeline_from_settings None None"]
  by simp

text \<open>
  C9: the derivation of the cache key is not injective. Two records with the same
  control attributes and different field-name lists (\<^verbatim>\<open>ab, c\<close> and \<^verbatim>\<open>a, bc\<close>) are
  admitted under the same key, and so are two records whose names are split differently
  between the fields and the update fields.
\<close>

theorem cache_key_not_injective:
  "(\<exists>i1 i2 k.
      keys (columns i1) \<noteq> keys (columns i2) \<and>
      control i1 ''save_update_fields'' (PList []) = control i2 ''save_update_fields'' (PList []) \<and>
      snd (snd (parse_item_to_cache (ItemCache_init ''mysql'') i1)) = Inr (k, 1) \<and>
      snd (snd (parse_item_to_cache (ItemCache_init ''mysql'') i2)) = Inr (k, 1))
   \<and> (\<exists>i1 i2 k.
      control i1 ''save_update_fields'' (PList []) \<noteq> control i2 ''save_update_fields'' (PList []) \<and>
      snd (snd (parse_item_to_cache (ItemCache_init ''mysql'') i1)) = Inr (k, 1) \<and>
      snd (snd (parse_item_to_cache (ItemCache_init ''mysql'') i2)) = Inr (k, 1))"
proof (rule conjI)
  let ?i1 = "[(''save_table_name'', PStr ''t''), (''ab'', PInt 1), (''c'', PInt 2)]"
  let ?i2 = "[(''save_table_name'', PStr ''t''), (''a'', PInt 1), (''bc'', PInt 2)]"
  have "keys (columns ?i1) \<noteq> keys (columns ?i2) \<and>
      control ?i1 ''save_update_fields'' (PList []) = control ?i2 ''save_update_fields'' (PList []) \<and>
      snd (snd (parse_item_to_cache (ItemCache_init ''mysql'') ?i1)) = Inr (''abcinsertt'', 1) \<and>
      snd (snd (parse_item_to_cache (ItemCache_init ''mysql'') ?i2)) = Inr (''abcinsertt'', 1)"
    by code_simp
  then show "\<exists>i1 i2 k.
      keys (columns i1) \<noteq> keys (columns i2) \<and>
      control i1 ''save_update_fields'' (PList []) = control i2 ''save_update_fields'' (PList []) \<and>
      snd (snd (parse_item_to_cache (ItemCache_init ''mysql'') i1)) = Inr (k, 1) \<and>
      snd (snd (parse_item_to_cache (ItemCache_init ''mysql'') i2)) = Inr (k, 1)"
    by blast
next
  let ?i1 = "[(''save_table_name'', PStr ''t''), (''save_insert_type'', PStr ''update_insert''),
              (''save_update_fields'', PList [PStr ''c'']), (''a'', PInt 1), (''b'', PInt 2)]"
  let ?i2 = "[(''save_table_name'', PStr ''t''), (''save_insert_type'', PStr ''update_insert''),
              (''save_update_fields'', PList [PStr ''b'', PStr ''c'']), (''a'', PInt 1)]"
  have "control ?i1 ''save_update_fields'' (PList []) \<noteq> control ?i2 ''save_update_fields'' (PList []) \<and>
      snd (snd (parse_item_to_cache (ItemCache_init ''mysql'') ?i1)) = Inr (''abcupdate_insertt'', 1) \<and>
      snd (snd (parse_item_to_cache (ItemCache_init ''mysql'') ?i2)) = Inr (''abcupdate_insertt'', 1)"
    by code_simp
  then show "\<exists>i1 i2 k.
      control i1 ''save_update_fields'' (PList []) \<noteq> control i2 ''save_update_fields'' (PList []) \<and>
      snd (snd (parse_item_to_cache (ItemCache_init ''mysql'') i1)) = Inr (k, 1) \<and>
      snd (snd (parse_item_to_cache (ItemCache_init ''mysql'') i2)) = Inr (k, 1)"
    by blast
qed

theorem admit_existing_group_witness:
  "parse_item_to_cache
     (fst (parse_item_to_cache (ItemCache_init ''mysql'')
        [(''save_table_name'', PStr ''t''), (''ab'', PInt 1), (''c'', PInt 2)]))
     [(''save_table_name'', PStr ''t''), (''a'', PInt 1), (''bc'', PInt 2)]
   = (fst (parse_item_to_cache (ItemCache_init ''mysql'')
        [(''save_table_name'', PStr ''t''), (''ab'', PInt 1), (''c'', PInt 2)]),
      [(''a'', PInt 1), (''bc'', PInt 2)], Inl (KeyError ''ab''))"
proof -
  let ?c = "fst (parse_item_to_cache (ItemCache_init ''mysql'')
        [(''save_table_name'', PStr ''t''), (''ab'', PInt 1), (''c'', PInt 2)])"
  let ?i = "[(''save_table_name'', PStr ''t''), (''a'', PInt 1), (''bc'', PInt 2)]"
  have gk: "group_key ?i = Inr (''abcinsertt'', [], ''insert'', ''t'')" by code_simp
  have sf: "map_of (fields_cache ?c) ''abcinsertt'' = Some [''ab'', ''c'']" by code_simp
  have rows: "map_of (item_cache ?c) ''abcinsertt'' = Some [[PInt 1, PInt 2]]" by code_simp
  have cols: "columns ?i = [(''a'', PInt 1), (''bc'', PInt 2)]" by code_simp
  have lr: "lookup_row [(''a'', PInt 1), (''bc'', PInt 2)] [''ab'', ''c''] = Inl (KeyError ''ab'')"
    by code_simp
  from admit_existing_group[OF gk sf rows] show ?thesis
    by (simp only: cols lr sum.case)
qed

section \<open>Properties of the destination writer\<close>

lemma executed_append: "executed (xs @ ys) = executed xs @ executed ys"
  by (induction xs rule: executed.induct) simp_all






lemma save_one_trace:
  "\<exists>evs. fst (save_one db dbt c k t tr a) = tr @ evs \<and> length (executed evs) \<le> 1 \<and>
     (\<forall>w\<in>set (executed evs). fst w = a \<and> map_of (insert_sql_cache c) k = Some (fst (snd w)) \<and>
         map_of (item_cache c) k = Some (snd (snd w)))"
  by (auto simp: save_one_def try_write_def invoke_def getitem_def
      split: sum.splits option.splits outcome.splits)

lemma save_aliases_trace:
  "\<exists>evs. fst (save_aliases db dbt c k t tr as) = tr @ evs \<and> length (executed evs) \<le> length as \<and>
     (\<forall>w\<in>set (executed evs). map_of (insert_sql_cache c) k = Some (fst (snd w)) \<and>
         map_of (item_cache c) k = Some (snd (snd w)))"
proof (induction as arbitrary: tr)
  case Nil
  show ?case by simp
next
  case (Cons a as)
  from save_one_trace[of db dbt c k t tr a] obtain e1 where
    e1: "fst (save_one db dbt c k t tr a) = tr @ e1" "length (executed e1) \<le> 1"
        "\<forall>w\<in>set (executed e1). map_of (insert_sql_cache c) k = Some (fst (snd w)) \<and>
         map_of (item_cache c) k = Some (snd (snd w))" by blast
  show ?case
  proof (cases "snd (save_one db dbt c k t tr a)")
    case (Inl e)
    with e1 have "save_one db dbt c k t tr a = (tr @ e1, Inl e)" by (simp add: prod_eq_iff)
    with e1 show ?thesis by (intro exI[of _ e1]) simp
  next
    case (Inr u)
    with e1 have s1: "save_one db dbt c k t tr a = (tr @ e1, Inr u)" by (simp add: prod_eq_iff)
    from Cons.IH[of "tr @ e1"] obtain e2 where
      e2: "fst (save_aliases db dbt c k t (tr @ e1) as) = tr @ e1 @ e2"
          "length (executed e2) \<le> length as"
          "\<forall>w\<in>set (executed e2). map_of (insert_sql_cache c) k = Some (fst (snd w)) \<and>
           map_of (item_cache c) k = Some (snd (snd w))" by auto
    show ?thesis
      using s1 e1 e2 by (intro exI[of _ "e1 @ e2"]) (auto simp: executed_append)
  qed
qed

lemma save_shape:
  assumes "map_of (table_cache (cache st)) k = Some t"
  shows "\<exists>evs r. MysqlPipeline_save db st k =
            (st\<lparr>trace := trace st @ evs,
                cache := (cache st)\<lparr>item_cache := AList.update k [] (item_cache (cache st))\<rparr>\<rparr>, r)
          \<and> (\<forall>w\<in>set (executed evs). snd (snd w) = buffer (cache st) k)
          \<and> (\<forall>v as. map_of (db_alias_cache (cache st)) k = Some v \<longrightarrow> py_iter v = Inr as
                  \<longrightarrow> length (executed evs) \<le> length as)"
proof (cases "map_of (db_alias_cache (cache st)) k")
  case None
  then have "MysqlPipeline_save db st k =
            (st\<lparr>trace := trace st @ [],
                cache := (cache st)\<lparr>item_cache := AList.update k [] (item_cache (cache st))\<rparr>\<rparr>,
             Inl (KeyError k))"
    using assms by (simp add: MysqlPipeline_save_def getitem_def)
  then show ?thesis using None by (intro exI[of _ "[]"] exI[of _ "Inl (KeyError k)"]) simp
next
  case (Some v)
  show ?thesis
  proof (cases "py_iter v")
    case (Inl e)
    then have "MysqlPipeline_save db st k =
            (st\<lparr>trace := trace st @ [],
                cache := (cache st)\<lparr>item_cache := AList.update k [] (item_cache (cache st))\<rparr>\<rparr>,
             Inl e)"
      using assms Some by (simp add: MysqlPipeline_save_def getitem_def)
    then show ?thesis using Some Inl by (intro exI[of _ "[]"] exI[of _ "Inl e"]) simp
  next
    case (Inr as)
    obtain tr' r where sa:
      "save_aliases db (pipeline_db_type st) (cache st) k t (trace st) as = (tr', r)"
      by (cases "save_aliases db (pipeline_db_type st) (cache st) k t (trace st) as")
    from save_aliases_trace[of db "pipeline_db_type st" "cache st" k t "trace st" as] sa
    obtain evs where evs: "tr' = trace st @ evs" "length (executed evs) \<le> length as"
      "\<forall>w\<in>set (executed evs). map_of (insert_sql_cache (cache st)) k = Some (fst (snd w)) \<and>
         map_of (item_cache (cache st)) k = Some (snd (snd w))" by auto
    have "MysqlPipeline_save db st k =
            (st\<lparr>trace := trace st @ evs,
                cache := (cache st)\<lparr>item_cache := AList.update k [] (item_cache (cache st))\<rparr>\<rparr>, r)"
      using assms Some Inr sa evs(1) by (simp add: MysqlPipeline_save_def getitem_def)
    then show ?thesis using Some Inr evs(2,3)
      by (intro exI[of _ evs] exI[of _ r]) (auto simp: buffer_def)
  qed
qed

section \<open>Well-formed caches and admitted records\<close>




lemma buffer_update: "buffer (c\<lparr>item_cache := AList.update k rows (item_cache c)\<rparr>) k' =
    (if k' = k then rows else buffer c k')"
  by (simp add: buffer_def update_conv')







section \<open>Properties of the flush\<close>

text \<open>
  C2: for every group, a flush resets the buffer of that group to empty and leaves every
  other buffer and dictionary as it was, whatever the pool and the driver answer and
  whether the flush returns or raises; within one flush each alias is written to at most
  once. Every trigger (threshold, periodic sweep, shutdown) flushes through this one
  function.
\<close>

theorem flush_always_clears_buffer:
  assumes "map_of (table_cache (cache st)) k = Some t"
  shows "cache (fst (MysqlPipeline_save db st k)) =
           (cache st)\<lparr>item_cache := AList.update k [] (item_cache (cache st))\<rparr>
       \<and> buffer (cache (fst (MysqlPipeline_save db st k))) k = []
       \<and> (\<forall>k'. k' \<noteq> k \<longrightarrow>
             buffer (cache (fst (MysqlPipeline_save db st k))) k' = buffer (cache st) k')
       \<and> (\<exists>evs. trace (fst (MysqlPipeline_save db st k)) = trace st @ evs \<and>
             (\<forall>v as. map_of (db_alias_cache (cache st)) k = Some v \<longrightarrow> py_iter v = Inr as
                  \<longrightarrow> length (executed evs) \<le> length as))"
proof -
  from save_shape[OF assms, of db] obtain evs r where
    s: "MysqlPipeline_save db st k =
            (st\<lparr>trace := trace st @ evs,
                cache := (cache st)\<lparr>item_cache := AList.update k [] (item_cache (cache st))\<rparr>\<rparr>, r)"
    and n: "\<forall>v as. map_of (db_alias_cache (cache st)) k = Some v \<longrightarrow> py_iter v = Inr as
                  \<longrightarrow> length (executed evs) \<le> length as"
    by blast
  have c: "cache (fst (MysqlPipeline_save db st k)) =
           (cache st)\<lparr>item_cache := AList.update k [] (item_cache (cache st))\<rparr>"
    by (simp add: s)
  have t: "trace (fst (MysqlPipeline_save db st k)) = trace st @ evs" by (simp add: s)
  show ?thesis
    unfolding c t using n by (auto simp: buffer_update)
qed


text \<open>
  The connection is acquired outside the inner \<^verbatim>\<open>try\<close>: when that raises, the exception
  leaves the flush and the remaining aliases are not attempted; the buffer is cleared all
  the same.
\<close>

lemma acquire_failure_escapes:
  assumes table: "map_of (table_cache (cache st)) k = Some t"
      and aliases: "map_of (db_alias_cache (cache st)) k = Some (PList (a # as))"
      and mgr: "get_manager (pipeline_db_type st) = Inr mgr"
      and acq: "db (trace st) (Acquire mgr a) = Raises m"
  shows "MysqlPipeline_save db st k =
            (st\<lparr>trace := trace st @ [Called (Acquire mgr a) (Raises m)],
                cache := (cache st)\<lparr>item_cache := AList.update k [] (item_cache (cache st))\<rparr>\<rparr>,
             Inl (DriverError m))"
  using assms
  by (simp add: MysqlPipeline_save_def getitem_def save_one_def invoke_def)


section \<open>The flush on concrete inputs\<close>

lemma one_buffered_2:
  "one_buffered 2 =
     \<lparr>cache_num = 2, save_cache_interval = 10, pipeline_db_type = ''mysql'',
      save_interval_task = None,
      cache = \<lparr>db_type = ''mysql'',
        item_cache = [(''idnameinsertusers'', [[PInt 1, PStr ''ann'']])],
        fields_cache = [(''idnameinsertusers'', [''id'', ''name''])],
        table_cache = [(''idnameinsertusers'', ''users'')],
        insert_sql_cache = [(''idnameinsertusers'', ''INSERT INTO users (id,name) VALUES (%s,%s)'')],
        db_alias_cache = [(''idnameinsertusers'', PList [PStr ''a'', PStr ''b''])]\<rparr>,
      trace = []\<rparr>"
  by code_simp




theorem flush_always_clears_buffer_witness:
  "buffer (cache (one_buffered 2)) ''idnameinsertusers'' = [[PInt 1, PStr ''ann'']]
   \<and> buffer (cache (fst (MysqlPipeline_save db_a_fails (one_buffered 2) ''idnameinsertusers'')))
         ''idnameinsertusers'' = []"
proof -
  have table: "map_of (table_cache (cache (one_buffered 2))) ''idnameinsertusers'' = Some ''users''"
    by (simp add: one_buffered_2)
  have "buffer (cache (one_buffered 2)) ''idnameinsertusers'' = [[PInt 1, PStr ''ann'']]"
    by (simp add: one_buffered_2 buffer_def)
  with flush_always_clears_buffer[OF table, of db_a_fails] show ?thesis by blast
qed


end
